theory Spec2Isabelle
  imports Complex_Main
begin

section \<open>JavaScript numbers\<close>

text \<open>
  The fare arithmetic of \<^verbatim>\<open>index.js\<close> runs on JavaScript numbers, and the branches of
  the polling cycle depend on \<^verbatim>\<open>NaN\<close> and the two infinities. A number is modelled as
  a rational (the value of a finite double), one of the infinities, or \<^verbatim>\<open>NaN\<close>;
  \<^verbatim>\<open>undefined\<close> is \<open>None\<close> of an option type. Comparisons of doubles are exact. The
  difference of two finite numbers is taken exact: the machine rounds it, which keeps
  its sign and whether it is zero, the only things a branch of the cycle reads. The
  sum of two finite numbers is rounded by the machine, and may overflow to an infinity,
  and the deal test compares it with a price; so the sum of two finite numbers is not
  fixed here but a parameter \<open>fadd\<close> of everything that adds, and each statement below
  holds for every such addition, the machine's among them. The sign of zero is not
  modelled.
\<close>

datatype jsnum = Fin rat | PInf | NInf | NaN

text \<open>\<^verbatim>\<open>ToNumber\<close>: \<^verbatim>\<open>undefined\<close> becomes \<^verbatim>\<open>NaN\<close>.\<close>

fun to_number :: "jsnum option \<Rightarrow> jsnum" where
  "to_number None = NaN"
| "to_number (Some x) = x"

text \<open>\<^verbatim>\<open>a - b\<close>\<close>

fun js_sub :: "jsnum \<Rightarrow> jsnum \<Rightarrow> jsnum" where
  "js_sub (Fin a) (Fin b) = Fin (a - b)"
| "js_sub (Fin a) PInf = NInf"
| "js_sub (Fin a) NInf = PInf"
| "js_sub PInf (Fin b) = PInf"
| "js_sub PInf NInf = PInf"
| "js_sub PInf PInf = NaN"
| "js_sub NInf (Fin b) = NInf"
| "js_sub NInf PInf = NInf"
| "js_sub NInf NInf = NaN"
| "js_sub NaN b = NaN"
| "js_sub a NaN = NaN"

text \<open>
  \<^verbatim>\<open>a + b\<close>, with \<open>fadd\<close> the machine's sum of two finite doubles (the exact sum
  rounded to a double, or an infinity on overflow).
\<close>

type_synonym addition = "rat \<Rightarrow> rat \<Rightarrow> jsnum"

fun js_add :: "addition \<Rightarrow> jsnum \<Rightarrow> jsnum \<Rightarrow> jsnum" where
  "js_add fadd (Fin a) (Fin b) = fadd a b"
| "js_add fadd (Fin a) PInf = PInf"
| "js_add fadd (Fin a) NInf = NInf"
| "js_add fadd PInf (Fin b) = PInf"
| "js_add fadd PInf PInf = PInf"
| "js_add fadd PInf NInf = NaN"
| "js_add fadd NInf (Fin b) = NInf"
| "js_add fadd NInf NInf = NInf"
| "js_add fadd NInf PInf = NaN"
| "js_add fadd NaN b = NaN"
| "js_add fadd a NaN = NaN"

text \<open>
  The addition of the examples: on numbers whose sum is itself a double, as the small
  integers used below, the machine's sum is the exact one.
\<close>

definition exact :: addition where
  "exact a b = Fin (a + b)"

text \<open>\<^verbatim>\<open>a < b\<close>, \<^verbatim>\<open>a > b\<close>, \<^verbatim>\<open>a <= b\<close>: every comparison with \<^verbatim>\<open>NaN\<close> is false.\<close>

fun js_lt :: "jsnum \<Rightarrow> jsnum \<Rightarrow> bool" where
  "js_lt (Fin a) (Fin b) = (a < b)"
| "js_lt (Fin a) PInf = True"
| "js_lt (Fin a) NInf = False"
| "js_lt PInf b = False"
| "js_lt NInf (Fin b) = True"
| "js_lt NInf PInf = True"
| "js_lt NInf NInf = False"
| "js_lt NaN b = False"
| "js_lt a NaN = False"

definition js_gt :: "jsnum \<Rightarrow> jsnum \<Rightarrow> bool" where
  "js_gt a b = js_lt b a"

fun js_le :: "jsnum \<Rightarrow> jsnum \<Rightarrow> bool" where
  "js_le (Fin a) (Fin b) = (a \<le> b)"
| "js_le (Fin a) PInf = True"
| "js_le (Fin a) NInf = False"
| "js_le PInf (Fin b) = False"
| "js_le PInf PInf = True"
| "js_le PInf NInf = False"
| "js_le NInf (Fin b) = True"
| "js_le NInf PInf = True"
| "js_le NInf NInf = True"
| "js_le NaN b = False"
| "js_le a NaN = False"

text \<open>\<^verbatim>\<open>a === b\<close> on numbers: \<^verbatim>\<open>NaN\<close> equals nothing.\<close>

fun js_strict_eq :: "jsnum \<Rightarrow> jsnum \<Rightarrow> bool" where
  "js_strict_eq NaN b = False"
| "js_strict_eq a NaN = False"
| "js_strict_eq a b = (a = b)"

fun isNaN :: "jsnum \<Rightarrow> bool" where
  "isNaN NaN = True"
| "isNaN x = False"

fun isFinite :: "jsnum \<Rightarrow> bool" where
  "isFinite (Fin a) = True"
| "isFinite x = False"

text \<open>\<^verbatim>\<open>ToBoolean\<close> of a number: \<^verbatim>\<open>0\<close> and \<^verbatim>\<open>NaN\<close> are falsy; of \<^verbatim>\<open>undefined\<close>: falsy.\<close>

fun truthy :: "jsnum \<Rightarrow> bool" where
  "truthy (Fin a) = (a \<noteq> 0)"
| "truthy NaN = False"
| "truthy x = True"

fun truthy_opt :: "jsnum option \<Rightarrow> bool" where
  "truthy_opt None = False"
| "truthy_opt (Some x) = truthy x"

fun Math_abs :: "jsnum \<Rightarrow> jsnum" where
  "Math_abs (Fin a) = Fin \<bar>a\<bar>"
| "Math_abs NInf = PInf"
| "Math_abs x = x"

text \<open>
  \<^verbatim>\<open>Math.min(...xs)\<close>: \<^verbatim>\<open>+Infinity\<close> with no argument, \<^verbatim>\<open>NaN\<close> as soon as one argument
  is \<^verbatim>\<open>NaN\<close>, the least argument otherwise.
\<close>

fun min2 :: "jsnum \<Rightarrow> jsnum \<Rightarrow> jsnum" where
  "min2 NaN b = NaN"
| "min2 a NaN = NaN"
| "min2 a b = (if js_lt b a then b else a)"

fun Math_min :: "jsnum list \<Rightarrow> jsnum" where
  "Math_min [] = PInf"
| "Math_min (x # xs) = min2 x (Math_min xs)"

section \<open>Configuration, state and the availability document\<close>

text \<open>
  The command line options the cycle reads (\<^verbatim>\<open>argv\<close>): the two deal prices are
  \<^verbatim>\<open>undefined\<close> when the option is not given; \<^verbatim>\<open>interval\<close> is in minutes.
\<close>

record config =
  oneWay :: bool
  individualDealPrice :: "jsnum option"
  totalDealPrice :: "jsnum option"
  interval :: rat
  isTwilioConfigured :: bool

definition TIME_MIN :: rat where
  "TIME_MIN = 1 * 1000 * 60"

text \<open>
  The module level variables: \<^verbatim>\<open>prevLowestOutboundFare\<close>, \<^verbatim>\<open>prevLowestReturnFare\<close>
  (declared without a value, so \<^verbatim>\<open>undefined\<close>) and the two arrays of \<^verbatim>\<open>fares\<close>.
\<close>

record state =
  prevLowestOutboundFare :: "jsnum option"
  prevLowestReturnFare :: "jsnum option"
  fares_outbound :: "jsnum list"
  fares_return :: "jsnum list"

definition init_state :: state where
  "init_state = \<lparr>prevLowestOutboundFare = None, prevLowestReturnFare = None,
     fares_outbound = [], fares_return = []\<rparr>"

text \<open>
  The parsed JSON answer, along the path the code reads:
  \<^verbatim>\<open>data.trips[i].dates[0].flights[0].regularFare.fares[0].amount\<close>. An amount is kept
  as the number \<^verbatim>\<open>Math.min\<close> makes of it.
\<close>

datatype fare = Fare (amount: jsnum)
datatype regular_fare = RegularFare (fares: "fare list")
datatype flight = Flight (regularFare: "regular_fare option")
datatype date_entry = DateEntry (flights: "flight list")
datatype trip = Trip (dates: "date_entry list")
datatype availability = Availability (trips: "trip list")

datatype error = RequestError string | TypeError

datatype response = Rejected string | Resolved availability

section \<open>What a cycle emits\<close>

text \<open>
  The calls a cycle makes on its collaborators, in order: \<^verbatim>\<open>dashboard.log\<close> with the
  lines it is given, \<^verbatim>\<open>dashboard.plot\<close>, \<^verbatim>\<open>sendTextMessage\<close>, \<^verbatim>\<open>dashboard.render\<close>
  and \<^verbatim>\<open>setTimeout(fetch, ms)\<close>. A line keeps the values its template interpolates:
  the deal line the total and the two fares, a fare line the fare (dropped by the
  filter when falsy) and the annotation (the empty string is \<open>None\<close>). The callback
  of the text message, which logs whether it was sent, is outside a cycle, and the
  dashboard calls are taken not to throw.
\<close>

datatype annotation = Down jsnum | Up jsnum | NoChange

datatype leg = Outbound | Return

datatype line =
    ErrorLine error
  | DealLine jsnum jsnum jsnum
  | FareLine leg "jsnum option" "annotation option"

datatype event =
    Log "line list"
  | Plot jsnum "jsnum option"
  | SendTextMessage jsnum jsnum jsnum
  | Render
  | SetTimeout rat

section \<open>The polling cycle\<close>

text \<open>\<^verbatim>\<open>xs[i]\<close>: \<^verbatim>\<open>undefined\<close> out of range.\<close>

fun index :: "'a list \<Rightarrow> nat \<Rightarrow> 'a option" where
  "index [] i = None"
| "index (x # xs) 0 = Some x"
| "index (x # xs) (Suc i) = index xs i"

text \<open>
  The property chain of the second \<^verbatim>\<open>then\<close>; reading a property of \<^verbatim>\<open>undefined\<close>
  throws a \<^verbatim>\<open>TypeError\<close>, which is \<open>None\<close> here.
\<close>

definition extract_amount :: "availability \<Rightarrow> nat \<Rightarrow> jsnum option" where
  "extract_amount data i =
     Option.bind (index (trips data) i) (\<lambda>t.
     Option.bind (index (dates t) 0) (\<lambda>d.
     Option.bind (index (flights d) 0) (\<lambda>f.
     Option.bind (regularFare f) (\<lambda>r.
     Option.bind (index (fares r) 0) (\<lambda>p. Some (amount p))))))"

text \<open>
  The second \<^verbatim>\<open>then\<close>: push the outbound price, and the return price unless the trip is
  one way. The state comes back also when the handler throws, since the first push
  may already have happened.
\<close>

definition push_fares :: "config \<Rightarrow> availability \<Rightarrow> state \<Rightarrow> state \<times> error option" where
  "push_fares cfg data st =
     (case extract_amount data 0 of
        None \<Rightarrow> (st, Some TypeError)
      | Some outPrice \<Rightarrow>
          let st1 = st\<lparr>fares_outbound := fares_outbound st @ [outPrice]\<rparr> in
          if \<not> oneWay cfg then
            (case extract_amount data 1 of
               None \<Rightarrow> (st1, Some TypeError)
             | Some inPrice \<Rightarrow> (st1\<lparr>fares_return := fares_return st1 @ [inPrice]\<rparr>, None))
          else (st1, None))"

text \<open>The locals of the third \<^verbatim>\<open>then\<close>, in the order the code computes them.\<close>

definition lowestOutboundFare :: "state \<Rightarrow> jsnum" where
  "lowestOutboundFare st = Math_min (fares_outbound st)"

definition lowestReturnFare :: "config \<Rightarrow> state \<Rightarrow> jsnum" where
  "lowestReturnFare cfg st = (if oneWay cfg then Fin 0 else Math_min (fares_return st))"

definition outboundFareDiff :: "state \<Rightarrow> jsnum" where
  "outboundFareDiff st = js_sub (to_number (prevLowestOutboundFare st)) (lowestOutboundFare st)"

definition returnFareDiff :: "config \<Rightarrow> state \<Rightarrow> jsnum" where
  "returnFareDiff cfg st =
     (if oneWay cfg then Fin 0
      else js_sub (to_number (prevLowestReturnFare st)) (lowestReturnFare cfg st))"

definition diffs_are_numbers :: "config \<Rightarrow> state \<Rightarrow> bool" where
  "diffs_are_numbers cfg st =
     (\<not> isNaN (outboundFareDiff st) \<and> \<not> isNaN (returnFareDiff cfg st))"

definition faresAreValid :: "config \<Rightarrow> state \<Rightarrow> bool" where
  "faresAreValid cfg st =
     (if diffs_are_numbers cfg st then
        (if \<not> isFinite (outboundFareDiff st) \<or> \<not> isFinite (returnFareDiff cfg st)
         then False else True)
      else True)"

definition outboundFareDiffString :: "config \<Rightarrow> state \<Rightarrow> annotation option" where
  "outboundFareDiffString cfg st =
     (let d = outboundFareDiff st in
      if diffs_are_numbers cfg st then
        (if js_gt d (Fin 0) then Some (Down (Math_abs d))
         else if js_lt d (Fin 0) then Some (Up (Math_abs d))
         else if js_strict_eq d (Fin 0) then Some NoChange
         else None)
      else None)"

definition returnFareDiffString :: "config \<Rightarrow> state \<Rightarrow> annotation option" where
  "returnFareDiffString cfg st =
     (let d = returnFareDiff cfg st in
      if diffs_are_numbers cfg st then
        (if js_gt d (Fin 0) \<and> \<not> oneWay cfg then Some (Down (Math_abs d))
         else if js_lt d (Fin 0) then Some (Up (Math_abs d))
         else if js_strict_eq d (Fin 0) then Some NoChange
         else None)
      else None)"

text \<open>
  \<^verbatim>\<open>awesomeDealIsAwesome\<close>, read as the condition of the \<^verbatim>\<open>if\<close> that follows it:
  \<^verbatim>\<open>&&\<close> and \<^verbatim>\<open>||\<close> test the truthiness of the deal prices.
\<close>

definition awesomeDealIsAwesome :: "addition \<Rightarrow> config \<Rightarrow> jsnum \<Rightarrow> jsnum \<Rightarrow> bool" where
  "awesomeDealIsAwesome fadd cfg lo lr =
     ((truthy_opt (totalDealPrice cfg) \<and> js_le (js_add fadd lo lr) (to_number (totalDealPrice cfg)))
      \<or> (truthy_opt (individualDealPrice cfg)
          \<and> (js_le lo (to_number (individualDealPrice cfg))
             \<or> js_le lr (to_number (individualDealPrice cfg)))))"

text \<open>\<^verbatim>\<open>[fare, diffString].filter(i => i)\<close>: a falsy fare is dropped from the line.\<close>

definition shown :: "jsnum \<Rightarrow> jsnum option" where
  "shown x = (if truthy x then Some x else None)"

definition deal_events :: "addition \<Rightarrow> config \<Rightarrow> jsnum \<Rightarrow> jsnum \<Rightarrow> event list" where
  "deal_events fadd cfg lo lr =
     (if awesomeDealIsAwesome fadd cfg lo lr then
        Log [DealLine (js_add fadd lo lr) lo lr]
        # (if isTwilioConfigured cfg then [SendTextMessage (js_add fadd lo lr) lo lr] else [])
      else [])"

definition fare_events :: "config \<Rightarrow> state \<Rightarrow> event list" where
  "fare_events cfg st =
     (let lo = lowestOutboundFare st; lr = lowestReturnFare cfg st in
      if oneWay cfg then
        [Log [FareLine Outbound (shown lo) (outboundFareDiffString cfg st)],
         Plot lo None]
      else
        [Log [FareLine Outbound (shown lo) (outboundFareDiffString cfg st),
              FareLine Return (shown lr) (returnFareDiffString cfg st)],
         Plot lo (Some lr)])"

text \<open>
  The third \<^verbatim>\<open>then\<close>, on the state the pushes left: clear the arrays; inside
  \<^verbatim>\<open>if (faresAreValid)\<close> store the baseline, evaluate the deal, log and plot; then render
  and re-arm the timer.
\<close>

definition report :: "addition \<Rightarrow> config \<Rightarrow> state \<Rightarrow> state \<times> event list" where
  "report fadd cfg st =
     (let lo = lowestOutboundFare st;
          lr = lowestReturnFare cfg st;
          cleared = st\<lparr>fares_outbound := [], fares_return := []\<rparr>;
          tail = [Render, SetTimeout (interval cfg * TIME_MIN)]
      in if faresAreValid cfg st then
           (cleared\<lparr>prevLowestOutboundFare := Some lo, prevLowestReturnFare := Some lr\<rparr>,
            deal_events fadd cfg lo lr @ fare_events cfg st @ tail)
         else (cleared, tail))"

text \<open>
  \<^verbatim>\<open>fetch\<close>: one cycle on the answer of the request. A rejection and a throw of the
  second \<^verbatim>\<open>then\<close> both end in the \<^verbatim>\<open>catch\<close> handler, which logs the error and does
  nothing else.
\<close>

definition fetch :: "addition \<Rightarrow> config \<Rightarrow> response \<Rightarrow> state \<Rightarrow> state \<times> event list" where
  "fetch fadd cfg resp st =
     (case resp of
        Rejected msg \<Rightarrow> (st, [Log [ErrorLine (RequestError msg)]])
      | Resolved data \<Rightarrow>
          (case push_fares cfg data st of
             (st1, Some err) \<Rightarrow> (st1, [Log [ErrorLine err]])
           | (st1, None) \<Rightarrow> report fadd cfg st1))"

text \<open>
  The process: the first cycle runs at startup, and a further one runs only when the
  cycle before it armed the timer. The answers of the fare service are the list.
\<close>

fun is_SetTimeout :: "event \<Rightarrow> bool" where
  "is_SetTimeout (SetTimeout d) = True"
| "is_SetTimeout e = False"

definition timer_armed :: "event list \<Rightarrow> bool" where
  "timer_armed evs = list_ex is_SetTimeout evs"

fun run :: "addition \<Rightarrow> config \<Rightarrow> response list \<Rightarrow> state \<Rightarrow> state \<times> event list" where
  "run fadd cfg [] st = (st, [])"
| "run fadd cfg (r # rs) st =
     (case fetch fadd cfg r st of (st1, evs) \<Rightarrow>
        if timer_armed evs then
          (case run fadd cfg rs st1 of (st2, evs2) \<Rightarrow> (st2, evs @ evs2))
        else (st1, evs))"

section \<open>Observations on a cycle\<close>

text \<open>How a cycle ended, and what its events show; the properties below are stated with these.\<close>

definition baseline :: "state \<Rightarrow> jsnum option \<times> jsnum option" where
  "baseline st = (prevLowestOutboundFare st, prevLowestReturnFare st)"

text \<open>The state the third \<^verbatim>\<open>then\<close> starts from, when the cycle gets that far.\<close>

fun pushed :: "config \<Rightarrow> response \<Rightarrow> state \<Rightarrow> state" where
  "pushed cfg (Rejected msg) st = st"
| "pushed cfg (Resolved data) st = fst (push_fares cfg data st)"

text \<open>The cycle ended in the \<^verbatim>\<open>catch\<close> handler.\<close>

fun cycle_failed :: "config \<Rightarrow> response \<Rightarrow> state \<Rightarrow> bool" where
  "cycle_failed cfg (Rejected msg) st = True"
| "cycle_failed cfg (Resolved data) st = (snd (push_fares cfg data st) \<noteq> None)"

text \<open>The cycle reached \<^verbatim>\<open>if (faresAreValid)\<close> and entered it.\<close>

definition cycle_valid :: "config \<Rightarrow> response \<Rightarrow> state \<Rightarrow> bool" where
  "cycle_valid cfg r st = (\<not> cycle_failed cfg r st \<and> faresAreValid cfg (pushed cfg r st))"

text \<open>The cycle reached \<^verbatim>\<open>if (faresAreValid)\<close> and skipped it.\<close>

definition cycle_invalid :: "config \<Rightarrow> response \<Rightarrow> state \<Rightarrow> bool" where
  "cycle_invalid cfg r st = (\<not> cycle_failed cfg r st \<and> \<not> faresAreValid cfg (pushed cfg r st))"

fun is_deal_line :: "line \<Rightarrow> bool" where
  "is_deal_line (DealLine t lo lr) = True"
| "is_deal_line l = False"

fun is_fare_line :: "line \<Rightarrow> bool" where
  "is_fare_line (FareLine g f a) = True"
| "is_fare_line l = False"

fun is_return_line :: "line \<Rightarrow> bool" where
  "is_return_line (FareLine Return f a) = True"
| "is_return_line l = False"

text \<open>
  A line that prints a return fare: the return fare line, and the deal line, whose
  message ends with the return fare.
\<close>

fun prints_return :: "line \<Rightarrow> bool" where
  "prints_return (FareLine Return f a) = True"
| "prints_return (DealLine t lo lr) = True"
| "prints_return l = False"

fun is_error_line :: "line \<Rightarrow> bool" where
  "is_error_line (ErrorLine e) = True"
| "is_error_line l = False"

fun logs_deal :: "event \<Rightarrow> bool" where
  "logs_deal (Log ls) = list_ex is_deal_line ls"
| "logs_deal e = False"

fun logs_fares :: "event \<Rightarrow> bool" where
  "logs_fares (Log ls) = list_ex is_fare_line ls"
| "logs_fares e = False"

fun logs_error :: "event \<Rightarrow> bool" where
  "logs_error (Log ls) = list_ex is_error_line ls"
| "logs_error e = False"

fun is_Plot :: "event \<Rightarrow> bool" where
  "is_Plot (Plot lo lr) = True"
| "is_Plot e = False"

fun is_SendTextMessage :: "event \<Rightarrow> bool" where
  "is_SendTextMessage (SendTextMessage t lo lr) = True"
| "is_SendTextMessage e = False"

text \<open>An event that carries a return fare to the log, the graph or the text message.\<close>

fun shows_return :: "event \<Rightarrow> bool" where
  "shows_return (Log ls) = list_ex prints_return ls"
| "shows_return (Plot lo lr) = (lr \<noteq> None)"
| "shows_return (SendTextMessage t lo lr) = True"
| "shows_return e = False"

fun logs_return_line :: "event \<Rightarrow> bool" where
  "logs_return_line (Log ls) = list_ex is_return_line ls"
| "logs_return_line e = False"

fun plots_return :: "event \<Rightarrow> bool" where
  "plots_return (Plot lo lr) = (lr \<noteq> None)"
| "plots_return e = False"

text \<open>The deal alert: the rainbow line of the log (and the text message, when configured).\<close>

definition alert_fired :: "event list \<Rightarrow> bool" where
  "alert_fired evs = list_ex logs_deal evs"

definition fares_logged :: "event list \<Rightarrow> bool" where
  "fares_logged evs = list_ex logs_fares evs"

definition fares_plotted :: "event list \<Rightarrow> bool" where
  "fares_plotted evs = list_ex is_Plot evs"

definition error_logged :: "event list \<Rightarrow> bool" where
  "error_logged evs = list_ex logs_error evs"

definition return_shown :: "event list \<Rightarrow> bool" where
  "return_shown evs = list_ex shows_return evs"

definition return_line_logged :: "event list \<Rightarrow> bool" where
  "return_line_logged evs = list_ex logs_return_line evs"

definition return_plotted :: "event list \<Rightarrow> bool" where
  "return_plotted evs = list_ex plots_return evs"

text \<open>No cycle of the run entered \<^verbatim>\<open>if (faresAreValid)\<close>.\<close>

fun no_valid_cycle :: "addition \<Rightarrow> config \<Rightarrow> response list \<Rightarrow> state \<Rightarrow> bool" where
  "no_valid_cycle fadd cfg [] st = True"
| "no_valid_cycle fadd cfg (r # rs) st =
     (\<not> cycle_valid cfg r st \<and>
      (if timer_armed (snd (fetch fadd cfg r st))
       then no_valid_cycle fadd cfg rs (fst (fetch fadd cfg r st)) else True))"

text \<open>
  The deal condition in the words of the specification, with a price counting as
  configured when it is given and not zero.
\<close>

definition deal_condition :: "addition \<Rightarrow> jsnum option \<Rightarrow> jsnum option \<Rightarrow> jsnum \<Rightarrow> jsnum \<Rightarrow> bool" where
  "deal_condition fadd tdp idp lo lr =
     ((case tdp of None \<Rightarrow> False
       | Some t \<Rightarrow> t \<noteq> Fin 0 \<and> js_le (js_add fadd lo lr) t)
      \<or> (case idp of None \<Rightarrow> False
          | Some p \<Rightarrow> p \<noteq> Fin 0 \<and> (js_le lo p \<or> js_le lr p)))"

text \<open>A round trip answer and a one way answer with the given first amounts.\<close>

definition quote :: "jsnum \<Rightarrow> trip" where
  "quote a = Trip [DateEntry [Flight (Some (RegularFare [Fare a]))]]"

definition round_trip :: "jsnum \<Rightarrow> jsnum \<Rightarrow> response" where
  "round_trip a b = Resolved (Availability [quote a, quote b])"

definition one_way :: "jsnum \<Rightarrow> response" where
  "one_way a = Resolved (Availability [quote a])"

text \<open>Configurations of a round trip and of a one way trip, polling every 30 minutes.\<close>

definition round_trip_config :: "jsnum option \<Rightarrow> jsnum option \<Rightarrow> config" where
  "round_trip_config idp tdp =
     \<lparr>oneWay = False, individualDealPrice = idp, totalDealPrice = tdp,
      interval = 30, isTwilioConfigured = False\<rparr>"

definition one_way_config :: "jsnum option \<Rightarrow> jsnum option \<Rightarrow> config" where
  "one_way_config idp tdp =
     \<lparr>oneWay = True, individualDealPrice = idp, totalDealPrice = tdp,
      interval = 30, isTwilioConfigured = False\<rparr>"

text \<open>The state a valid cycle with lowest fares \<open>a\<close> and \<open>b\<close> leaves.\<close>

definition seen :: "jsnum \<Rightarrow> jsnum \<Rightarrow> state" where
  "seen a b = \<lparr>prevLowestOutboundFare = Some a, prevLowestReturnFare = Some b,
     fares_outbound = [], fares_return = []\<rparr>"

section \<open>Facts about the model\<close>

lemma js_le_NaN [simp]: "js_le a NaN = False"
  by (cases a) simp_all

lemma js_lt_NaN [simp]: "js_lt a NaN = False"
  by (cases a) simp_all

lemma js_sub_NaN [simp]: "js_sub a NaN = NaN"
  by (cases a) simp_all

lemma js_add_NaN [simp]: "js_add fadd a NaN = NaN"
  by (cases a) simp_all

lemma Math_min_single: "Math_min [x] = x"
  by (cases x) simp_all

lemma push_fares_baseline: "baseline (fst (push_fares cfg data st)) = baseline st"
  by (simp add: push_fares_def baseline_def Let_def split: option.splits)

lemma pushed_baseline: "baseline (pushed cfg r st) = baseline st"
  by (cases r) (simp_all add: push_fares_baseline)

lemma fetch_failed:
  "cycle_failed cfg r st \<Longrightarrow> \<exists>e. fetch fadd cfg r st = (pushed cfg r st, [Log [ErrorLine e]])"
  by (cases r) (auto simp: fetch_def split: prod.splits option.splits)

lemma fetch_reported:
  "\<not> cycle_failed cfg r st \<Longrightarrow> fetch fadd cfg r st = report fadd cfg (pushed cfg r st)"
  by (cases r) (auto simp: fetch_def split: prod.splits option.splits)

lemma report_valid:
  "faresAreValid cfg st \<Longrightarrow>
   report fadd cfg st =
     (\<lparr>prevLowestOutboundFare = Some (lowestOutboundFare st),
       prevLowestReturnFare = Some (lowestReturnFare cfg st),
       fares_outbound = [], fares_return = []\<rparr>,
      deal_events fadd cfg (lowestOutboundFare st) (lowestReturnFare cfg st)
        @ fare_events cfg st @ [Render, SetTimeout (interval cfg * TIME_MIN)])"
  by (simp add: report_def Let_def)

lemma report_invalid:
  "\<not> faresAreValid cfg st \<Longrightarrow>
   report fadd cfg st =
     (st\<lparr>fares_outbound := [], fares_return := []\<rparr>,
      [Render, SetTimeout (interval cfg * TIME_MIN)])"
  by (simp add: report_def Let_def)

lemma alert_fired_deal_events:
  "alert_fired (deal_events fadd cfg lo lr @ fare_events cfg st @ [Render, SetTimeout d])
     = awesomeDealIsAwesome fadd cfg lo lr"
  by (simp add: alert_fired_def deal_events_def fare_events_def Let_def)

lemma awesome_deal_condition:
  "awesomeDealIsAwesome fadd cfg lo lr
     = deal_condition fadd (totalDealPrice cfg) (individualDealPrice cfg) lo lr"
proof -
  have t: "(truthy_opt x \<and> js_le a (to_number x))
      = (case x of None \<Rightarrow> False | Some t \<Rightarrow> t \<noteq> Fin 0 \<and> js_le a t)" for x a
  proof (cases x)
    case None
    then show ?thesis by simp
  next
    case (Some t)
    then show ?thesis by (cases t) auto
  qed
  have i: "(truthy_opt x \<and> (js_le a (to_number x) \<or> js_le b (to_number x)))
      = (case x of None \<Rightarrow> False | Some p \<Rightarrow> p \<noteq> Fin 0 \<and> (js_le a p \<or> js_le b p))" for x a b
  proof (cases x)
    case None
    then show ?thesis by simp
  next
    case (Some t)
    then show ?thesis by (cases t) auto
  qed
  show ?thesis
    unfolding awesomeDealIsAwesome_def deal_condition_def t i ..
qed

lemmas example_defs =
  round_trip_config_def one_way_config_def round_trip_def one_way_def quote_def init_state_def
  seen_def exact_def

lemmas cycle_defs =
  fetch_def push_fares_def extract_amount_def report_def deal_events_def fare_events_def
  faresAreValid_def diffs_are_numbers_def outboundFareDiff_def returnFareDiff_def
  lowestOutboundFare_def lowestReturnFare_def outboundFareDiffString_def
  returnFareDiffString_def awesomeDealIsAwesome_def shown_def TIME_MIN_def js_gt_def

lemmas observation_defs =
  cycle_valid_def cycle_invalid_def baseline_def alert_fired_def fares_logged_def
  fares_plotted_def error_logged_def return_shown_def return_line_logged_def
  return_plotted_def timer_armed_def

lemma fetch_invalid:
  "cycle_invalid cfg r st \<Longrightarrow>
   fetch fadd cfg r st = ((pushed cfg r st)\<lparr>fares_outbound := [], fares_return := []\<rparr>,
                     [Render, SetTimeout (interval cfg * TIME_MIN)])"
  by (simp add: cycle_invalid_def fetch_reported report_invalid)

lemma fetch_valid:
  "cycle_valid cfg r st \<Longrightarrow>
   fetch fadd cfg r st =
     (\<lparr>prevLowestOutboundFare = Some (lowestOutboundFare (pushed cfg r st)),
       prevLowestReturnFare = Some (lowestReturnFare cfg (pushed cfg r st)),
       fares_outbound = [], fares_return = []\<rparr>,
      deal_events fadd cfg (lowestOutboundFare (pushed cfg r st)) (lowestReturnFare cfg (pushed cfg r st))
        @ fare_events cfg (pushed cfg r st) @ [Render, SetTimeout (interval cfg * TIME_MIN)])"
  by (simp add: cycle_valid_def fetch_reported report_valid)

lemma cycle_cases:
  "cycle_failed cfg r st \<or> cycle_invalid cfg r st \<or> cycle_valid cfg r st"
  by (auto simp: cycle_valid_def cycle_invalid_def)

lemma run_armed:
  "timer_armed (snd (fetch fadd cfg r st)) \<Longrightarrow>
   fst (run fadd cfg (r # rs) st) = fst (run fadd cfg rs (fst (fetch fadd cfg r st)))"
  by (cases "fetch fadd cfg r st") (auto split: prod.splits)

lemma no_valid_cycle_baseline:
  "no_valid_cycle fadd cfg rs st \<Longrightarrow> baseline (fst (run fadd cfg rs st)) = baseline st"
proof (induction rs arbitrary: st)
  case Nil
  then show ?case by simp
next
  case (Cons r rs)
  from Cons.prems have nv: "\<not> cycle_valid cfg r st" by simp
  then consider (failed) "cycle_failed cfg r st" | (invalid) "cycle_invalid cfg r st"
    using cycle_cases [of cfg r st] by blast
  then show ?case
  proof cases
    case failed
    from fetch_failed [OF failed] obtain e
      where f: "fetch fadd cfg r st = (pushed cfg r st, [Log [ErrorLine e]])" ..
    show ?thesis by (simp add: f timer_armed_def pushed_baseline)
  next
    case invalid
    let ?s = "(pushed cfg r st)\<lparr>fares_outbound := [], fares_return := []\<rparr>"
    have f: "fetch fadd cfg r st = (?s, [Render, SetTimeout (interval cfg * TIME_MIN)])"
      by (rule fetch_invalid [OF invalid])
    have a: "timer_armed (snd (fetch fadd cfg r st))"
      by (simp add: f timer_armed_def)
    from Cons.prems a have "no_valid_cycle fadd cfg rs ?s" by (simp add: f)
    then have "baseline (fst (run fadd cfg rs ?s)) = baseline ?s" by (rule Cons.IH)
    also have "baseline ?s = baseline st"
      using pushed_baseline [of cfg r st] by (simp add: baseline_def)
    finally show ?thesis using run_armed [OF a, of rs] by (simp add: f)
  qed
qed

lemma min2_PInf [simp]: "min2 x PInf = x"
  by (cases x) simp_all

lemma not_NaN_cases:
  "\<not> isNaN d \<Longrightarrow> js_gt d (Fin 0) \<or> js_lt d (Fin 0) \<or> js_strict_eq d (Fin 0)"
  by (cases d) (auto simp: js_gt_def)

lemma js_sub_Fin_left:
  "x \<noteq> NaN \<Longrightarrow> \<not> isNaN (js_sub (Fin a) x) \<and> isFinite (js_sub (Fin a) x) = isFinite x"
  by (cases x) simp_all

lemma fare_events_one_way:
  "oneWay cfg \<Longrightarrow>
   fare_events cfg st
     = [Log [FareLine Outbound (shown (lowestOutboundFare st)) (outboundFareDiffString cfg st)],
        Plot (lowestOutboundFare st) None]"
  by (simp add: fare_events_def Let_def)

lemma deal_events_return:
  "list_ex shows_return (deal_events fadd cfg lo lr) = awesomeDealIsAwesome fadd cfg lo lr"
  "\<not> list_ex logs_return_line (deal_events fadd cfg lo lr)"
  "\<not> list_ex plots_return (deal_events fadd cfg lo lr)"
  by (simp_all add: deal_events_def)

lemma awesome_zero_total:
  "awesomeDealIsAwesome fadd (cfg\<lparr>totalDealPrice := Some (Fin 0)\<rparr>) lo lr
     = awesomeDealIsAwesome fadd (cfg\<lparr>totalDealPrice := None\<rparr>) lo lr"
  by (simp add: awesomeDealIsAwesome_def)

lemma awesome_zero_individual:
  "awesomeDealIsAwesome fadd (cfg\<lparr>individualDealPrice := Some (Fin 0)\<rparr>) lo lr
     = awesomeDealIsAwesome fadd (cfg\<lparr>individualDealPrice := None\<rparr>) lo lr"
  by (simp add: awesomeDealIsAwesome_def)

lemma fetch_cong_config:
  assumes "oneWay c = oneWay c'" "interval c = interval c'"
    and "isTwilioConfigured c = isTwilioConfigured c'"
    and "\<And>lo lr. awesomeDealIsAwesome fadd c lo lr = awesomeDealIsAwesome fadd c' lo lr"
  shows "fetch fadd c r st = fetch fadd c' r st"
proof -
  have p: "push_fares c d s = push_fares c' d s" for d s
    using assms(1) by (simp add: push_fares_def Let_def split: option.splits)
  have q: "report fadd c s = report fadd c' s" for s
    using assms
    by (simp add: report_def deal_events_def fare_events_def faresAreValid_def
        diffs_are_numbers_def returnFareDiff_def lowestReturnFare_def
        outboundFareDiffString_def returnFareDiffString_def Let_def)
  show ?thesis
    by (cases r) (simp_all add: fetch_def p q)
qed

section \<open>Properties of the cycle\<close>

text \<open>
  C1. A cycle whose request is rejected, or whose extraction throws, logs the error
  and leaves \<^verbatim>\<open>prevLowestOutboundFare\<close> and \<^verbatim>\<open>prevLowestReturnFare\<close> as they were. The
  \<^verbatim>\<open>catch\<close> handler does not arm the timer, though: no later cycle runs, and the run
  ends with the failed cycle whatever answers would follow.
\<close>

theorem failed_cycle_logs_and_stops:
  assumes "cycle_failed cfg r st"
  shows "error_logged (snd (fetch fadd cfg r st))
       \<and> baseline (fst (fetch fadd cfg r st)) = baseline st
       \<and> \<not> timer_armed (snd (fetch fadd cfg r st))
       \<and> run fadd cfg (r # rs) st = fetch fadd cfg r st"
proof -
  from fetch_failed [OF assms] obtain e
    where f: "fetch fadd cfg r st = (pushed cfg r st, [Log [ErrorLine e]])" ..
  have "baseline (fst (fetch fadd cfg r st)) = baseline st"
    by (simp add: f pushed_baseline)
  moreover have "error_logged (snd (fetch fadd cfg r st))"
    by (simp add: f error_logged_def)
  moreover have n: "\<not> timer_armed (snd (fetch fadd cfg r st))"
    by (simp add: f timer_armed_def)
  moreover have "run fadd cfg (r # rs) st = fetch fadd cfg r st"
    using n by (simp add: f)
  ultimately show ?thesis by blast
qed

theorem failed_cycle_logs_and_stops_witness:
  "cycle_failed (round_trip_config None (Some (Fin 100))) (Rejected ''ETIMEDOUT'') init_state
   \<and> \<not> timer_armed (snd (fetch exact (round_trip_config None (Some (Fin 100)))
         (Rejected ''ETIMEDOUT'') init_state))
   \<and> run exact (round_trip_config None (Some (Fin 100)))
        [Rejected ''ETIMEDOUT'', round_trip (Fin 50) (Fin 40)] init_state
      = (init_state, [Log [ErrorLine (RequestError ''ETIMEDOUT'')]])"
proof -
  have h: "cycle_failed (round_trip_config None (Some (Fin 100))) (Rejected ''ETIMEDOUT'') init_state"
    by simp
  show ?thesis
    using h failed_cycle_logs_and_stops [OF h, where fadd = exact
        and rs = "[round_trip (Fin 50) (Fin 40)]"]
    by (simp add: fetch_def)
qed

text \<open>
  C2, as stated, fails: with the baseline 50 and 40 of a first cycle, an outbound
  amount of \<^verbatim>\<open>Infinity\<close> makes the cycle invalid, and the cycle neither logs nor plots
  the fares.
\<close>

theorem invalid_cycle_logged_counterexample:
  "cycle_invalid (round_trip_config None (Some (Fin 100))) (round_trip PInf (Fin 40))
     (fst (fetch exact (round_trip_config None (Some (Fin 100))) (round_trip (Fin 50) (Fin 40)) init_state))
   \<and> \<not> fares_logged (snd (fetch exact (round_trip_config None (Some (Fin 100))) (round_trip PInf (Fin 40))
     (fst (fetch exact (round_trip_config None (Some (Fin 100))) (round_trip (Fin 50) (Fin 40)) init_state))))
   \<and> \<not> fares_plotted (snd (fetch exact (round_trip_config None (Some (Fin 100))) (round_trip PInf (Fin 40))
     (fst (fetch exact (round_trip_config None (Some (Fin 100))) (round_trip (Fin 50) (Fin 40)) init_state))))"
  by (simp add: example_defs cycle_defs observation_defs Let_def)

text \<open>
  C2, amended. A cycle that is marked invalid only renders the dashboard and arms the
  timer: the fares are neither logged nor plotted, no alert is evaluated, and the
  baseline stays.
\<close>

theorem invalid_cycle_reports_nothing:
  assumes "cycle_invalid cfg r st"
  shows "snd (fetch fadd cfg r st) = [Render, SetTimeout (interval cfg * TIME_MIN)]
       \<and> \<not> fares_logged (snd (fetch fadd cfg r st))
       \<and> \<not> fares_plotted (snd (fetch fadd cfg r st))
       \<and> \<not> alert_fired (snd (fetch fadd cfg r st))
       \<and> baseline (fst (fetch fadd cfg r st)) = baseline st"
proof -
  have b: "baseline ((pushed cfg r st)\<lparr>fares_outbound := [], fares_return := []\<rparr>)
             = baseline (pushed cfg r st)"
    by (simp add: baseline_def)
  show ?thesis
    by (simp add: fetch_invalid [OF assms] b pushed_baseline fares_logged_def
        fares_plotted_def alert_fired_def)
qed

theorem invalid_cycle_reports_nothing_witness:
  "cycle_invalid (round_trip_config None (Some (Fin 100))) (round_trip PInf (Fin 40))
     \<lparr>prevLowestOutboundFare = Some (Fin 50), prevLowestReturnFare = Some (Fin 40),
      fares_outbound = [], fares_return = []\<rparr>
   \<and> fetch exact (round_trip_config None (Some (Fin 100))) (round_trip PInf (Fin 40))
       \<lparr>prevLowestOutboundFare = Some (Fin 50), prevLowestReturnFare = Some (Fin 40),
        fares_outbound = [], fares_return = []\<rparr>
     = (\<lparr>prevLowestOutboundFare = Some (Fin 50), prevLowestReturnFare = Some (Fin 40),
         fares_outbound = [], fares_return = []\<rparr>,
        [Render, SetTimeout 1800000])"
proof -
  have h: "cycle_invalid (round_trip_config None (Some (Fin 100))) (round_trip PInf (Fin 40))
     \<lparr>prevLowestOutboundFare = Some (Fin 50), prevLowestReturnFare = Some (Fin 40),
      fares_outbound = [], fares_return = []\<rparr>"
    by (simp add: example_defs cycle_defs observation_defs Let_def)
  have s: "fst (fetch exact (round_trip_config None (Some (Fin 100))) (round_trip PInf (Fin 40))
       \<lparr>prevLowestOutboundFare = Some (Fin 50), prevLowestReturnFare = Some (Fin 40),
        fares_outbound = [], fares_return = []\<rparr>)
     = \<lparr>prevLowestOutboundFare = Some (Fin 50), prevLowestReturnFare = Some (Fin 40),
         fares_outbound = [], fares_return = []\<rparr>"
    by (simp add: example_defs cycle_defs Let_def)
  have i: "interval (round_trip_config None (Some (Fin 100))) * TIME_MIN = 1800000"
    by (simp add: round_trip_config_def TIME_MIN_def)
  show ?thesis
    using h s invalid_cycle_reports_nothing [OF h]
    by (simp add: i prod_eq_iff)
qed

text \<open>
  C3. The baseline is assigned only in a valid cycle. Through any run of cycles none of
  which is valid (failed or marked invalid) it stays what it was; the cycle after them
  computes its differences from that baseline, and sets the baseline to its own lowest
  fares exactly when it is valid.
\<close>

theorem baseline_only_from_valid_cycles:
  assumes "no_valid_cycle fadd cfg rs st"
  shows "baseline (fst (run fadd cfg rs st)) = baseline st
       \<and> baseline (fst (fetch fadd cfg r (fst (run fadd cfg rs st))))
         = (if cycle_valid cfg r (fst (run fadd cfg rs st))
            then (Some (lowestOutboundFare (pushed cfg r (fst (run fadd cfg rs st)))),
                  Some (lowestReturnFare cfg (pushed cfg r (fst (run fadd cfg rs st)))))
            else baseline st)
       \<and> outboundFareDiff (pushed cfg r (fst (run fadd cfg rs st)))
         = js_sub (to_number (prevLowestOutboundFare st))
             (lowestOutboundFare (pushed cfg r (fst (run fadd cfg rs st))))
       \<and> returnFareDiff cfg (pushed cfg r (fst (run fadd cfg rs st)))
         = (if oneWay cfg then Fin 0
            else js_sub (to_number (prevLowestReturnFare st))
                   (lowestReturnFare cfg (pushed cfg r (fst (run fadd cfg rs st)))))"
proof -
  let ?s = "fst (run fadd cfg rs st)"
  have b: "baseline ?s = baseline st"
    by (rule no_valid_cycle_baseline [OF assms])
  have p: "baseline (pushed cfg r ?s) = baseline st"
    by (simp add: pushed_baseline b)
  have step: "baseline (fst (fetch fadd cfg r ?s))
         = (if cycle_valid cfg r ?s
            then (Some (lowestOutboundFare (pushed cfg r ?s)),
                  Some (lowestReturnFare cfg (pushed cfg r ?s)))
            else baseline st)"
  proof (cases "cycle_valid cfg r ?s")
    case True
    then show ?thesis by (simp add: fetch_valid baseline_def)
  next
    case False
    then consider (failed) "cycle_failed cfg r ?s" | (invalid) "cycle_invalid cfg r ?s"
      using cycle_cases [of cfg r ?s] by blast
    then show ?thesis
    proof cases
      case failed
      from fetch_failed [OF failed] obtain e
        where f: "fetch fadd cfg r ?s = (pushed cfg r ?s, [Log [ErrorLine e]])" ..
      show ?thesis using False p by (simp add: f)
    next
      case invalid
      show ?thesis using False p by (simp add: fetch_invalid [OF invalid] baseline_def)
    qed
  qed
  have o: "outboundFareDiff (pushed cfg r ?s)
         = js_sub (to_number (prevLowestOutboundFare st)) (lowestOutboundFare (pushed cfg r ?s))"
    using p by (simp add: outboundFareDiff_def baseline_def)
  have t: "returnFareDiff cfg (pushed cfg r ?s)
         = (if oneWay cfg then Fin 0
            else js_sub (to_number (prevLowestReturnFare st))
                   (lowestReturnFare cfg (pushed cfg r ?s)))"
    using p by (simp add: returnFareDiff_def baseline_def)
  from b step o t show ?thesis by blast
qed

theorem baseline_only_from_valid_cycles_witness:
  "no_valid_cycle exact (round_trip_config None (Some (Fin 100)))
     [round_trip PInf (Fin 40)] (seen (Fin 50) (Fin 40))
   \<and> baseline (fst (run exact (round_trip_config None (Some (Fin 100)))
        [round_trip PInf (Fin 40)] (seen (Fin 50) (Fin 40))))
     = (Some (Fin 50), Some (Fin 40))
   \<and> outboundFareDiff (pushed (round_trip_config None (Some (Fin 100)))
        (round_trip (Fin 45) (Fin 40))
        (fst (run exact (round_trip_config None (Some (Fin 100)))
           [round_trip PInf (Fin 40)] (seen (Fin 50) (Fin 40)))))
     = Fin 5"
proof -
  have h: "no_valid_cycle exact (round_trip_config None (Some (Fin 100)))
     [round_trip PInf (Fin 40)] (seen (Fin 50) (Fin 40))"
    by (simp add: example_defs cycle_defs observation_defs Let_def)
  have l: "lowestOutboundFare (pushed (round_trip_config None (Some (Fin 100)))
        (round_trip (Fin 45) (Fin 40))
        (fst (run exact (round_trip_config None (Some (Fin 100)))
           [round_trip PInf (Fin 40)] (seen (Fin 50) (Fin 40))))) = Fin 45"
    by (simp add: example_defs cycle_defs observation_defs Let_def)
  show ?thesis
    using h l baseline_only_from_valid_cycles [OF h, where r = "round_trip (Fin 45) (Fin 40)"]
    by (simp add: seen_def baseline_def)
qed

text \<open>
  C4, as stated, fails for a deal price of zero: the price is configured, the fares
  0 and 0 add up to no more than it, the cycle is valid, and no alert fires.
\<close>

theorem alert_iff_configured_counterexample:
  "cycle_valid (round_trip_config None (Some (Fin 0))) (round_trip (Fin 0) (Fin 0)) init_state
   \<and> totalDealPrice (round_trip_config None (Some (Fin 0))) \<noteq> None
   \<and> js_le (js_add exact
        (lowestOutboundFare (pushed (round_trip_config None (Some (Fin 0)))
           (round_trip (Fin 0) (Fin 0)) init_state))
        (lowestReturnFare (round_trip_config None (Some (Fin 0)))
           (pushed (round_trip_config None (Some (Fin 0))) (round_trip (Fin 0) (Fin 0)) init_state)))
      (to_number (totalDealPrice (round_trip_config None (Some (Fin 0)))))
   \<and> \<not> alert_fired (snd (fetch exact (round_trip_config None (Some (Fin 0)))
        (round_trip (Fin 0) (Fin 0)) init_state))"
  by (simp add: example_defs cycle_defs observation_defs Let_def)

text \<open>
  C4, amended. The alert fires exactly in a valid cycle in which the total deal price
  is configured and not zero and the sum of the two lowest fares, as the machine adds
  them (rounded to a double, an infinity on overflow), is no more than it, or the
  individual deal price is configured and not zero and one of the lowest fares is no
  more than it. No alert is evaluated in a cycle that is invalid or failed. The
  statement holds for every addition \<open>fadd\<close> of finite numbers.
\<close>

theorem alert_iff_deal_condition:
  "alert_fired (snd (fetch fadd cfg r st))
     = (cycle_valid cfg r st
        \<and> deal_condition fadd (totalDealPrice cfg) (individualDealPrice cfg)
            (lowestOutboundFare (pushed cfg r st)) (lowestReturnFare cfg (pushed cfg r st)))"
proof -
  consider (failed) "cycle_failed cfg r st" | (invalid) "cycle_invalid cfg r st"
    | (valid) "cycle_valid cfg r st"
    using cycle_cases [of cfg r st] by blast
  then show ?thesis
  proof cases
    case failed
    from fetch_failed [OF failed] obtain e
      where f: "fetch fadd cfg r st = (pushed cfg r st, [Log [ErrorLine e]])" ..
    from failed have "\<not> cycle_valid cfg r st" by (simp add: cycle_valid_def)
    then show ?thesis by (simp add: f alert_fired_def)
  next
    case invalid
    then have "\<not> cycle_valid cfg r st" by (simp add: cycle_valid_def cycle_invalid_def)
    then show ?thesis by (simp add: fetch_invalid [OF invalid] alert_fired_def)
  next
    case valid
    then show ?thesis
      by (simp add: fetch_valid [OF valid] alert_fired_deal_events awesome_deal_condition)
  qed
qed

theorem alert_iff_deal_condition_witness:
  "alert_fired (snd (fetch exact (round_trip_config (Some (Fin 30)) None)
      (round_trip (Fin 50) (Fin 25)) init_state))
   \<and> \<not> alert_fired (snd (fetch exact (round_trip_config (Some (Fin 30)) None)
      (round_trip (Fin 50) (Fin 35)) init_state))
   \<and> \<not> alert_fired (snd (fetch exact (round_trip_config (Some (Fin 30)) None)
      (round_trip PInf (Fin 25)) (seen (Fin 50) (Fin 40))))"
  using alert_iff_deal_condition [where fadd = exact
        and cfg = "round_trip_config (Some (Fin 30)) None"
        and r = "round_trip (Fin 50) (Fin 25)" and st = init_state]
      alert_iff_deal_condition [where fadd = exact
        and cfg = "round_trip_config (Some (Fin 30)) None"
        and r = "round_trip (Fin 50) (Fin 35)" and st = init_state]
      alert_iff_deal_condition [where fadd = exact
        and cfg = "round_trip_config (Some (Fin 30)) None"
        and r = "round_trip PInf (Fin 25)" and st = "seen (Fin 50) (Fin 40)"]
  by (simp add: example_defs cycle_defs observation_defs deal_condition_def Let_def)

text \<open>
  C5, as stated, fails leg by leg: after a first cycle with the amounts \<^verbatim>\<open>Infinity\<close>
  and 40, a cycle with \<^verbatim>\<open>Infinity\<close> and 35 has a return difference of 5, which is
  positive, and no annotation on the return line, because the outbound difference is
  \<^verbatim>\<open>NaN\<close>.
\<close>

theorem trend_per_leg_counterexample:
  "js_gt (returnFareDiff (round_trip_config None None)
       (pushed (round_trip_config None None) (round_trip PInf (Fin 35))
          (fst (fetch exact (round_trip_config None None) (round_trip PInf (Fin 40)) init_state))))
     (Fin 0)
   \<and> returnFareDiffString (round_trip_config None None)
       (pushed (round_trip_config None None) (round_trip PInf (Fin 35))
          (fst (fetch exact (round_trip_config None None) (round_trip PInf (Fin 40)) init_state)))
     = None
   \<and> snd (fetch exact (round_trip_config None None) (round_trip PInf (Fin 35))
          (fst (fetch exact (round_trip_config None None) (round_trip PInf (Fin 40)) init_state)))
     = [Log [FareLine Outbound (Some PInf) None, FareLine Return (Some (Fin 35)) None],
        Plot PInf (Some (Fin 35)), Render, SetTimeout 1800000]"
  by (simp add: example_defs cycle_defs observation_defs Let_def)

text \<open>
  C5, amended. The difference of a leg is the previous lowest fare minus the current
  one. When neither difference is \<^verbatim>\<open>NaN\<close>, a positive difference gives the
  annotation down, a negative one up, and zero no change, so every leg has an
  annotation. When one of the two differences is \<^verbatim>\<open>NaN\<close>, as on the first cycle, where
  the previous lowest fare is \<^verbatim>\<open>undefined\<close>, neither leg has an annotation.
\<close>

theorem trend_classification:
  "outboundFareDiff st
     = js_sub (to_number (prevLowestOutboundFare st)) (lowestOutboundFare st)
   \<and> (\<not> oneWay cfg \<longrightarrow>
        returnFareDiff cfg st
          = js_sub (to_number (prevLowestReturnFare st)) (lowestReturnFare cfg st))
   \<and> (diffs_are_numbers cfg st \<longrightarrow>
        (js_gt (outboundFareDiff st) (Fin 0) \<longrightarrow>
           outboundFareDiffString cfg st = Some (Down (Math_abs (outboundFareDiff st))))
      \<and> (js_lt (outboundFareDiff st) (Fin 0) \<longrightarrow>
           outboundFareDiffString cfg st = Some (Up (Math_abs (outboundFareDiff st))))
      \<and> (outboundFareDiff st = Fin 0 \<longrightarrow> outboundFareDiffString cfg st = Some NoChange)
      \<and> (\<not> oneWay cfg \<and> js_gt (returnFareDiff cfg st) (Fin 0) \<longrightarrow>
           returnFareDiffString cfg st = Some (Down (Math_abs (returnFareDiff cfg st))))
      \<and> (\<not> oneWay cfg \<and> js_lt (returnFareDiff cfg st) (Fin 0) \<longrightarrow>
           returnFareDiffString cfg st = Some (Up (Math_abs (returnFareDiff cfg st))))
      \<and> (\<not> oneWay cfg \<and> returnFareDiff cfg st = Fin 0 \<longrightarrow>
           returnFareDiffString cfg st = Some NoChange))
   \<and> (diffs_are_numbers cfg st \<longrightarrow>
        outboundFareDiffString cfg st \<noteq> None \<and> returnFareDiffString cfg st \<noteq> None)
   \<and> (\<not> diffs_are_numbers cfg st \<longrightarrow>
        outboundFareDiffString cfg st = None \<and> returnFareDiffString cfg st = None)
   \<and> (prevLowestOutboundFare st = None \<longrightarrow>
        isNaN (outboundFareDiff st) \<and> \<not> diffs_are_numbers cfg st)
   \<and> (\<not> oneWay cfg \<and> prevLowestReturnFare st = None \<longrightarrow>
        isNaN (returnFareDiff cfg st) \<and> \<not> diffs_are_numbers cfg st)"
proof -
  have gt_lt: "js_gt d (Fin 0) \<Longrightarrow> \<not> js_lt d (Fin 0)" for d
    by (cases d) (auto simp: js_gt_def)
  have lt_gt: "js_lt d (Fin 0) \<Longrightarrow> \<not> js_gt d (Fin 0)" for d
    by (cases d) (auto simp: js_gt_def)
  have a: "outboundFareDiff st
     = js_sub (to_number (prevLowestOutboundFare st)) (lowestOutboundFare st)"
    by (simp add: outboundFareDiff_def)
  have b: "\<not> oneWay cfg \<longrightarrow>
        returnFareDiff cfg st
          = js_sub (to_number (prevLowestReturnFare st)) (lowestReturnFare cfg st)"
    by (simp add: returnFareDiff_def)
  have c: "diffs_are_numbers cfg st \<longrightarrow>
        (js_gt (outboundFareDiff st) (Fin 0) \<longrightarrow>
           outboundFareDiffString cfg st = Some (Down (Math_abs (outboundFareDiff st))))
      \<and> (js_lt (outboundFareDiff st) (Fin 0) \<longrightarrow>
           outboundFareDiffString cfg st = Some (Up (Math_abs (outboundFareDiff st))))
      \<and> (outboundFareDiff st = Fin 0 \<longrightarrow> outboundFareDiffString cfg st = Some NoChange)"
    by (auto simp: outboundFareDiffString_def Let_def js_gt_def dest: lt_gt)
  have d: "diffs_are_numbers cfg st \<longrightarrow>
        (\<not> oneWay cfg \<and> js_gt (returnFareDiff cfg st) (Fin 0) \<longrightarrow>
           returnFareDiffString cfg st = Some (Down (Math_abs (returnFareDiff cfg st))))
      \<and> (\<not> oneWay cfg \<and> js_lt (returnFareDiff cfg st) (Fin 0) \<longrightarrow>
           returnFareDiffString cfg st = Some (Up (Math_abs (returnFareDiff cfg st))))
      \<and> (\<not> oneWay cfg \<and> returnFareDiff cfg st = Fin 0 \<longrightarrow>
           returnFareDiffString cfg st = Some NoChange)"
    using lt_gt [of "returnFareDiff cfg st"]
    by (auto simp: returnFareDiffString_def Let_def js_gt_def)
  have e: "\<not> diffs_are_numbers cfg st \<longrightarrow>
        outboundFareDiffString cfg st = None \<and> returnFareDiffString cfg st = None"
    by (simp add: outboundFareDiffString_def returnFareDiffString_def)
  have f: "prevLowestOutboundFare st = None \<longrightarrow>
        isNaN (outboundFareDiff st) \<and> \<not> diffs_are_numbers cfg st"
    by (simp add: outboundFareDiff_def diffs_are_numbers_def)
  have g: "\<not> oneWay cfg \<and> prevLowestReturnFare st = None \<longrightarrow>
        isNaN (returnFareDiff cfg st) \<and> \<not> diffs_are_numbers cfg st"
    by (simp add: returnFareDiff_def diffs_are_numbers_def)
  have h: "diffs_are_numbers cfg st \<longrightarrow>
        outboundFareDiffString cfg st \<noteq> None \<and> returnFareDiffString cfg st \<noteq> None"
  proof
    assume n: "diffs_are_numbers cfg st"
    then have "js_gt (outboundFareDiff st) (Fin 0) \<or> js_lt (outboundFareDiff st) (Fin 0)
        \<or> js_strict_eq (outboundFareDiff st) (Fin 0)"
      by (simp add: diffs_are_numbers_def not_NaN_cases)
    then have o: "outboundFareDiffString cfg st \<noteq> None"
      using n by (auto simp: outboundFareDiffString_def Let_def)
    have r: "returnFareDiffString cfg st \<noteq> None"
    proof (cases "oneWay cfg")
      case True
      then show ?thesis
        using n by (simp add: returnFareDiffString_def returnFareDiff_def js_gt_def)
    next
      case False
      from n have "js_gt (returnFareDiff cfg st) (Fin 0) \<or> js_lt (returnFareDiff cfg st) (Fin 0)
          \<or> js_strict_eq (returnFareDiff cfg st) (Fin 0)"
        by (simp add: diffs_are_numbers_def not_NaN_cases)
      then show ?thesis
        using n False by (auto simp: returnFareDiffString_def Let_def)
    qed
    from o r show "outboundFareDiffString cfg st \<noteq> None \<and> returnFareDiffString cfg st \<noteq> None" ..
  qed
  from a b c d e f g h show ?thesis by blast
qed

theorem trend_classification_witness:
  "outboundFareDiffString (round_trip_config None None)
     (pushed (round_trip_config None None) (round_trip (Fin 45) (Fin 40)) (seen (Fin 50) (Fin 40)))
     = Some (Down (Fin 5))
   \<and> returnFareDiffString (round_trip_config None None)
     (pushed (round_trip_config None None) (round_trip (Fin 45) (Fin 40)) (seen (Fin 50) (Fin 40)))
     = Some NoChange
   \<and> outboundFareDiffString (round_trip_config None None)
     (pushed (round_trip_config None None) (round_trip (Fin 55) (Fin 41)) (seen (Fin 50) (Fin 40)))
     = Some (Up (Fin 5))
   \<and> returnFareDiffString (round_trip_config None None)
     (pushed (round_trip_config None None) (round_trip (Fin 55) (Fin 39)) (seen (Fin 50) (Fin 40)))
     = Some (Down (Fin 1))
   \<and> outboundFareDiffString (round_trip_config None None)
     (pushed (round_trip_config None None) (round_trip (Fin 50) (Fin 40)) init_state)
     = None"
  using
    trend_classification [of "pushed (round_trip_config None None)
       (round_trip (Fin 45) (Fin 40)) (seen (Fin 50) (Fin 40))" "round_trip_config None None"]
    trend_classification [of "pushed (round_trip_config None None)
       (round_trip (Fin 55) (Fin 41)) (seen (Fin 50) (Fin 40))" "round_trip_config None None"]
    trend_classification [of "pushed (round_trip_config None None)
       (round_trip (Fin 55) (Fin 39)) (seen (Fin 50) (Fin 40))" "round_trip_config None None"]
    trend_classification [of "pushed (round_trip_config None None)
       (round_trip (Fin 50) (Fin 40)) init_state" "round_trip_config None None"]
  by (simp add: example_defs cycle_defs Let_def)

text \<open>
  C6, as stated, fails on the first cycle: with no baseline the difference is
  \<^verbatim>\<open>NaN\<close>, so an outbound amount of \<^verbatim>\<open>Infinity\<close> leaves the cycle valid, the
  baseline becomes \<^verbatim>\<open>Infinity\<close> and 40, and the individual deal price of 50 fires the
  alert on the return fare.
\<close>

theorem infinite_amount_counterexample:
  "extract_amount (Availability [quote PInf, quote (Fin 40)]) 0 = Some PInf
   \<and> cycle_valid (round_trip_config (Some (Fin 50)) None) (round_trip PInf (Fin 40)) init_state
   \<and> baseline (fst (fetch exact (round_trip_config (Some (Fin 50)) None)
        (round_trip PInf (Fin 40)) init_state)) = (Some PInf, Some (Fin 40))
   \<and> baseline init_state = (None, None)
   \<and> alert_fired (snd (fetch exact (round_trip_config (Some (Fin 50)) None)
        (round_trip PInf (Fin 40)) init_state))"
  by (simp add: example_defs cycle_defs observation_defs Let_def)

text \<open>
  C6, amended. In a cycle that starts with empty fare arrays and a finite baseline,
  where an extracted amount is infinite and none is \<^verbatim>\<open>NaN\<close>, the cycle is marked
  invalid, the baseline is unchanged and no alert fires, whatever the deal prices.
\<close>

theorem infinite_amount_invalid:
  assumes empty: "fares_outbound st = []" "fares_return st = []"
    and prev_out: "prevLowestOutboundFare st = Some (Fin a)"
    and prev_ret: "oneWay cfg \<or> prevLowestReturnFare st = Some (Fin b)"
    and out: "extract_amount data 0 = Some x" "x \<noteq> NaN"
    and ret: "oneWay cfg \<or> extract_amount data 1 = Some y \<and> y \<noteq> NaN"
    and inf: "\<not> isFinite x \<or> \<not> oneWay cfg \<and> \<not> isFinite y"
  shows "cycle_invalid cfg (Resolved data) st
       \<and> baseline (fst (fetch fadd cfg (Resolved data) st)) = baseline st
       \<and> \<not> alert_fired (snd (fetch fadd cfg (Resolved data) st))"
proof -
  let ?s = "pushed cfg (Resolved data) st"
  have ok: "\<not> cycle_failed cfg (Resolved data) st"
    using out ret by (auto simp: push_fares_def Let_def)
  have lo: "lowestOutboundFare ?s = x"
    using out ret empty by (auto simp: push_fares_def Let_def lowestOutboundFare_def Math_min_single)
  have po: "prevLowestOutboundFare ?s = Some (Fin a)"
    using pushed_baseline [of cfg "Resolved data" st] prev_out by (simp add: baseline_def)
  have od: "outboundFareDiff ?s = js_sub (Fin a) x"
    by (simp only: outboundFareDiff_def lo po to_number.simps)
  have rd: "returnFareDiff cfg ?s = (if oneWay cfg then Fin 0 else js_sub (Fin b) y)"
  proof (cases "oneWay cfg")
    case True
    then show ?thesis by (simp add: returnFareDiff_def)
  next
    case False
    with ret prev_ret have y: "extract_amount data 1 = Some y"
      and pr: "prevLowestReturnFare st = Some (Fin b)" by simp_all
    have "lowestReturnFare cfg ?s = y"
      using False out y empty
      by (simp add: push_fares_def Let_def lowestReturnFare_def Math_min_single)
    moreover have "prevLowestReturnFare ?s = Some (Fin b)"
      using pushed_baseline [of cfg "Resolved data" st] pr by (simp add: baseline_def)
    ultimately show ?thesis using False by (simp add: returnFareDiff_def)
  qed
  have xo: "\<not> isNaN (js_sub (Fin a) x)" "isFinite (js_sub (Fin a) x) = isFinite x"
    using js_sub_Fin_left [OF out(2), of a] by simp_all
  have no: "\<not> isNaN (outboundFareDiff ?s)"
    using xo(1) unfolding od .
  have nr: "\<not> isNaN (returnFareDiff cfg ?s)"
  proof (cases "oneWay cfg")
    case True
    then show ?thesis unfolding rd by simp
  next
    case False
    with ret have "y \<noteq> NaN" by simp
    from js_sub_Fin_left [OF this, of b] show ?thesis unfolding rd using False by simp
  qed
  have numbers: "diffs_are_numbers cfg ?s"
    using no nr unfolding diffs_are_numbers_def by (rule conjI)
  have infinite: "\<not> isFinite (outboundFareDiff ?s) \<or> \<not> isFinite (returnFareDiff cfg ?s)"
  proof (cases "isFinite x")
    case False
    then have "\<not> isFinite (outboundFareDiff ?s)" unfolding od xo(2) .
    then show ?thesis ..
  next
    case True
    with inf have w: "\<not> oneWay cfg" and iy: "\<not> isFinite y" by simp_all
    from w ret have "y \<noteq> NaN" by simp
    from js_sub_Fin_left [OF this, of b] iy have "\<not> isFinite (js_sub (Fin b) y)" by simp
    then have "\<not> isFinite (returnFareDiff cfg ?s)" unfolding rd using w by simp
    then show ?thesis ..
  qed
  have valid: "\<not> faresAreValid cfg ?s"
    using numbers infinite unfolding faresAreValid_def by simp
  have inv: "cycle_invalid cfg (Resolved data) st"
    using ok valid unfolding cycle_invalid_def by (rule conjI)
  have "baseline (fst (fetch fadd cfg (Resolved data) st)) = baseline st"
    using pushed_baseline [of cfg "Resolved data" st]
    by (simp add: fetch_invalid [OF inv] baseline_def)
  moreover have "\<not> alert_fired (snd (fetch fadd cfg (Resolved data) st))"
    by (simp add: fetch_invalid [OF inv] alert_fired_def)
  ultimately show ?thesis using inv by blast
qed

theorem infinite_amount_invalid_witness:
  "cycle_invalid (round_trip_config (Some (Fin 1000)) (Some (Fin 1000)))
     (round_trip PInf (Fin 40)) (seen (Fin 50) (Fin 40))
   \<and> baseline (fst (fetch exact (round_trip_config (Some (Fin 1000)) (Some (Fin 1000)))
        (round_trip PInf (Fin 40)) (seen (Fin 50) (Fin 40))))
     = (Some (Fin 50), Some (Fin 40))
   \<and> \<not> alert_fired (snd (fetch exact (round_trip_config (Some (Fin 1000)) (Some (Fin 1000)))
        (round_trip PInf (Fin 40)) (seen (Fin 50) (Fin 40))))"
proof -
  let ?d = "Availability [quote PInf, quote (Fin 40)]"
  let ?c = "round_trip_config (Some (Fin 1000)) (Some (Fin 1000))"
  have e: "fares_outbound (seen (Fin 50) (Fin 40)) = []" "fares_return (seen (Fin 50) (Fin 40)) = []"
    by (simp_all add: seen_def)
  have po: "prevLowestOutboundFare (seen (Fin 50) (Fin 40)) = Some (Fin 50)"
    by (simp add: seen_def)
  have pr: "oneWay ?c \<or> prevLowestReturnFare (seen (Fin 50) (Fin 40)) = Some (Fin 40)"
    by (simp add: seen_def)
  have x: "extract_amount ?d 0 = Some PInf" "PInf \<noteq> NaN"
    by (simp_all add: extract_amount_def quote_def)
  have y: "oneWay ?c \<or> extract_amount ?d 1 = Some (Fin 40) \<and> Fin 40 \<noteq> NaN"
    by (simp add: extract_amount_def quote_def)
  have i: "\<not> isFinite PInf \<or> \<not> oneWay ?c \<and> \<not> isFinite (Fin 40)"
    by simp
  show ?thesis
    using infinite_amount_invalid [OF e po pr x y i]
    by (simp add: round_trip_def baseline_def seen_def)
qed

text \<open>
  C7. On the first cycle, with no baseline, the outbound difference is \<^verbatim>\<open>NaN\<close> (and
  the return difference too on a round trip), the cycle is valid, neither fare line has
  an annotation, the deal is evaluated and the baseline becomes the current lowest
  fares. With the amounts 50 and 40 and a total deal price of 100 the alert fires, the
  sum of 50 and 40 being 90 (and for every addition whose sum of 50 and 40 is at most
  100).
\<close>

theorem first_cycle_is_valid:
  assumes first: "baseline st = (None, None)"
    and ok: "\<not> cycle_failed cfg r st"
  shows "isNaN (outboundFareDiff (pushed cfg r st))
       \<and> returnFareDiff cfg (pushed cfg r st) = (if oneWay cfg then Fin 0 else NaN)
       \<and> cycle_valid cfg r st
       \<and> outboundFareDiffString cfg (pushed cfg r st) = None
       \<and> returnFareDiffString cfg (pushed cfg r st) = None
       \<and> fst (fetch fadd cfg r st)
         = seen (lowestOutboundFare (pushed cfg r st)) (lowestReturnFare cfg (pushed cfg r st))
       \<and> snd (fetch fadd cfg r st)
         = deal_events fadd cfg (lowestOutboundFare (pushed cfg r st))
               (lowestReturnFare cfg (pushed cfg r st))
           @ [Log (FareLine Outbound (shown (lowestOutboundFare (pushed cfg r st))) None
                   # (if oneWay cfg then []
                      else [FareLine Return (shown (lowestReturnFare cfg (pushed cfg r st))) None])),
              Plot (lowestOutboundFare (pushed cfg r st))
                (if oneWay cfg then None else Some (lowestReturnFare cfg (pushed cfg r st))),
              Render, SetTimeout (interval cfg * TIME_MIN)]
       \<and> alert_fired (snd (fetch fadd cfg r st))
         = awesomeDealIsAwesome fadd cfg (lowestOutboundFare (pushed cfg r st))
             (lowestReturnFare cfg (pushed cfg r st))
       \<and> alert_fired (snd (fetch exact (cfg\<lparr>oneWay := False, totalDealPrice := Some (Fin 100)\<rparr>)
             (round_trip (Fin 50) (Fin 40)) init_state))
       \<and> (js_le (fadd 50 40) (Fin 100) \<longrightarrow>
           alert_fired (snd (fetch fadd (cfg\<lparr>oneWay := False, totalDealPrice := Some (Fin 100)\<rparr>)
             (round_trip (Fin 50) (Fin 40)) init_state)))"
proof -
  let ?s = "pushed cfg r st"
  from first pushed_baseline [of cfg r st]
  have po: "prevLowestOutboundFare ?s = None" and pr: "prevLowestReturnFare ?s = None"
    by (simp_all add: baseline_def)
  have od: "outboundFareDiff ?s = NaN"
    by (simp add: outboundFareDiff_def po)
  have rd: "returnFareDiff cfg ?s = (if oneWay cfg then Fin 0 else NaN)"
    by (simp add: returnFareDiff_def pr)
  have nn: "\<not> diffs_are_numbers cfg ?s"
    by (simp add: diffs_are_numbers_def od)
  have fv: "faresAreValid cfg ?s"
    using nn by (simp add: faresAreValid_def)
  have v: "cycle_valid cfg r st"
    using ok fv unfolding cycle_valid_def by (rule conjI)
  have os: "outboundFareDiffString cfg ?s = None"
    using nn by (simp add: outboundFareDiffString_def)
  have rs: "returnFareDiffString cfg ?s = None"
    using nn by (simp add: returnFareDiffString_def)
  have fe: "fare_events cfg ?s
     = [Log (FareLine Outbound (shown (lowestOutboundFare ?s)) None
              # (if oneWay cfg then []
                 else [FareLine Return (shown (lowestReturnFare cfg ?s)) None])),
        Plot (lowestOutboundFare ?s)
          (if oneWay cfg then None else Some (lowestReturnFare cfg ?s))]"
    by (simp add: fare_events_def Let_def os rs)
  have f1: "fst (fetch fadd cfg r st) = seen (lowestOutboundFare ?s) (lowestReturnFare cfg ?s)"
    by (simp add: fetch_valid [OF v] seen_def)
  have f2: "snd (fetch fadd cfg r st)
     = deal_events fadd cfg (lowestOutboundFare ?s) (lowestReturnFare cfg ?s)
       @ [Log (FareLine Outbound (shown (lowestOutboundFare ?s)) None
                # (if oneWay cfg then []
                   else [FareLine Return (shown (lowestReturnFare cfg ?s)) None])),
          Plot (lowestOutboundFare ?s)
            (if oneWay cfg then None else Some (lowestReturnFare cfg ?s)),
          Render, SetTimeout (interval cfg * TIME_MIN)]"
    by (simp add: fetch_valid [OF v] fe)
  have al: "alert_fired (snd (fetch fadd cfg r st))
     = awesomeDealIsAwesome fadd cfg (lowestOutboundFare ?s) (lowestReturnFare cfg ?s)"
    by (simp only: fetch_valid [OF v] snd_conv alert_fired_deal_events)
  have sg: "js_le (fadd 50 40) (Fin 100) \<longrightarrow>
           alert_fired (snd (fetch fadd (cfg\<lparr>oneWay := False, totalDealPrice := Some (Fin 100)\<rparr>)
             (round_trip (Fin 50) (Fin 40)) init_state))"
    by (simp add: round_trip_def quote_def init_state_def cycle_defs alert_fired_def Let_def)
  have sc: "alert_fired (snd (fetch exact (cfg\<lparr>oneWay := False, totalDealPrice := Some (Fin 100)\<rparr>)
             (round_trip (Fin 50) (Fin 40)) init_state))"
    by (simp add: round_trip_def quote_def init_state_def cycle_defs alert_fired_def exact_def
        Let_def)
  have "isNaN (outboundFareDiff ?s)" by (simp add: od)
  with rd v os rs f1 f2 al sc sg show ?thesis by blast
qed

theorem first_cycle_is_valid_witness:
  "fetch exact (round_trip_config None (Some (Fin 100))) (round_trip (Fin 50) (Fin 40)) init_state
     = (seen (Fin 50) (Fin 40),
        [Log [DealLine (Fin 90) (Fin 50) (Fin 40)],
         Log [FareLine Outbound (Some (Fin 50)) None, FareLine Return (Some (Fin 40)) None],
         Plot (Fin 50) (Some (Fin 40)), Render, SetTimeout 1800000])
   \<and> alert_fired (snd (fetch exact (round_trip_config None (Some (Fin 100)))
        (round_trip (Fin 50) (Fin 40)) init_state))"
proof -
  let ?c = "round_trip_config None (Some (Fin 100))"
  let ?r = "round_trip (Fin 50) (Fin 40)"
  have b: "baseline init_state = (None, None)"
    by (simp add: baseline_def init_state_def)
  have k: "\<not> cycle_failed ?c ?r init_state"
    by (simp add: example_defs push_fares_def extract_amount_def)
  have l: "lowestOutboundFare (pushed ?c ?r init_state) = Fin 50"
    "lowestReturnFare ?c (pushed ?c ?r init_state) = Fin 40"
    by (simp_all add: example_defs push_fares_def extract_amount_def
        lowestOutboundFare_def lowestReturnFare_def)
  have d: "deal_events exact ?c (Fin 50) (Fin 40) = [Log [DealLine (Fin 90) (Fin 50) (Fin 40)]]"
    by (simp add: deal_events_def awesomeDealIsAwesome_def round_trip_config_def exact_def)
  have w: "oneWay ?c = False" "interval ?c * TIME_MIN = 1800000"
    by (simp_all add: round_trip_config_def TIME_MIN_def)
  have a: "awesomeDealIsAwesome exact ?c (Fin 50) (Fin 40)"
    by (simp add: awesomeDealIsAwesome_def round_trip_config_def exact_def)
  from first_cycle_is_valid [OF b k, where fadd = exact] show ?thesis
    unfolding l d w by (simp add: prod_eq_iff shown_def a alert_fired_def)
qed

text \<open>
  C8, as stated, fails: the return leg is not skipped altogether on a one way trip. With
  an individual deal price of 30 and an outbound fare of 50 the constant return fare 0
  meets the price, the alert fires, and the deal line prints 0 as the return fare; the
  cycle stores 0 as \<^verbatim>\<open>prevLowestReturnFare\<close>, and the next cycle computes the annotation
  of the return leg.
\<close>

theorem one_way_return_skipped_counterexample:
  "oneWay (one_way_config (Some (Fin 30)) None)
   \<and> snd (fetch exact (one_way_config (Some (Fin 30)) None) (one_way (Fin 50)) init_state)
     = [Log [DealLine (Fin 50) (Fin 50) (Fin 0)],
        Log [FareLine Outbound (Some (Fin 50)) None],
        Plot (Fin 50) None, Render, SetTimeout 1800000]
   \<and> return_shown
       (snd (fetch exact (one_way_config (Some (Fin 30)) None) (one_way (Fin 50)) init_state))
   \<and> prevLowestReturnFare
       (fst (fetch exact (one_way_config (Some (Fin 30)) None) (one_way (Fin 50)) init_state))
     = Some (Fin 0)
   \<and> returnFareDiffString (one_way_config (Some (Fin 30)) None)
       (pushed (one_way_config (Some (Fin 30)) None) (one_way (Fin 50))
          (fst (fetch exact (one_way_config (Some (Fin 30)) None) (one_way (Fin 50)) init_state)))
     = Some NoChange"
  by (simp add: example_defs cycle_defs observation_defs Let_def)

text \<open>
  C8, amended. On a one way trip the cycle reads the first trip of the answer only and
  pushes no return fare; the lowest return fare and the return difference are the
  constant 0; no return fare line is logged and no return point is plotted; and the
  total deal check adds 0 as the return contribution. The return leg is not skipped
  altogether: a valid cycle stores 0 as \<^verbatim>\<open>prevLowestReturnFare\<close>, the individual deal
  check compares 0 with the individual deal price, the deal line and the text message
  print 0 as the return fare exactly when the alert fires, and the annotation of the
  return leg is computed (no change, when the outbound difference is a number) though
  no line shows it.
\<close>

theorem one_way_return_is_zero:
  assumes "oneWay cfg"
  shows "fetch fadd cfg (Resolved (Availability ts)) st
           = fetch fadd cfg (Resolved (Availability (take 1 ts))) st
       \<and> fares_return (pushed cfg r st) = fares_return st
       \<and> lowestReturnFare cfg (pushed cfg r st) = Fin 0
       \<and> returnFareDiff cfg (pushed cfg r st) = Fin 0
       \<and> \<not> return_line_logged (snd (fetch fadd cfg r st))
       \<and> \<not> return_plotted (snd (fetch fadd cfg r st))
       \<and> (if cycle_valid cfg r st
          then snd (fetch fadd cfg r st)
            = deal_events fadd cfg (lowestOutboundFare (pushed cfg r st)) (Fin 0)
              @ [Log [FareLine Outbound (shown (lowestOutboundFare (pushed cfg r st)))
                        (outboundFareDiffString cfg (pushed cfg r st))],
                 Plot (lowestOutboundFare (pushed cfg r st)) None,
                 Render, SetTimeout (interval cfg * TIME_MIN)]
            \<and> prevLowestReturnFare (fst (fetch fadd cfg r st)) = Some (Fin 0)
          else \<not> fares_logged (snd (fetch fadd cfg r st))
            \<and> prevLowestReturnFare (fst (fetch fadd cfg r st)) = prevLowestReturnFare st)
       \<and> alert_fired (snd (fetch fadd cfg r st))
         = (cycle_valid cfg r st
            \<and> (truthy_opt (totalDealPrice cfg)
                 \<and> js_le (js_add fadd (lowestOutboundFare (pushed cfg r st)) (Fin 0))
                      (to_number (totalDealPrice cfg))
               \<or> truthy_opt (individualDealPrice cfg)
                 \<and> (js_le (lowestOutboundFare (pushed cfg r st))
                       (to_number (individualDealPrice cfg))
                    \<or> js_le (Fin 0) (to_number (individualDealPrice cfg)))))
       \<and> return_shown (snd (fetch fadd cfg r st)) = alert_fired (snd (fetch fadd cfg r st))
       \<and> returnFareDiffString cfg (pushed cfg r st)
         = (if diffs_are_numbers cfg (pushed cfg r st) then Some NoChange else None)"
proof -
  let ?s = "pushed cfg r st"
  let ?evs = "snd (fetch fadd cfg r st)"
  have a: "fetch fadd cfg (Resolved (Availability ts)) st
           = fetch fadd cfg (Resolved (Availability (take 1 ts))) st"
  proof -
    have "push_fares cfg (Availability ts) st = push_fares cfg (Availability (take 1 ts)) st"
      using assms
      by (cases ts) (simp_all add: push_fares_def extract_amount_def Let_def split: option.splits)
    then show ?thesis by (simp add: fetch_def)
  qed
  have b: "fares_return ?s = fares_return st"
    using assms by (cases r) (simp_all add: push_fares_def Let_def split: option.splits)
  have c: "lowestReturnFare cfg ?s = Fin 0"
    using assms by (simp add: lowestReturnFare_def)
  have d: "returnFareDiff cfg ?s = Fin 0"
    using assms by (simp add: returnFareDiff_def)
  have pr: "prevLowestReturnFare ?s = prevLowestReturnFare st"
    using pushed_baseline [of cfg r st] by (simp add: baseline_def)
  have i: "returnFareDiffString cfg ?s
         = (if diffs_are_numbers cfg ?s then Some NoChange else None)"
    using assms by (simp add: returnFareDiffString_def d js_gt_def)
  consider (failed) "cycle_failed cfg r st" | (invalid) "cycle_invalid cfg r st"
    | (valid) "cycle_valid cfg r st"
    using cycle_cases [of cfg r st] by blast
  then have rest: "\<not> return_line_logged ?evs \<and> \<not> return_plotted ?evs
       \<and> (if cycle_valid cfg r st
          then ?evs
            = deal_events fadd cfg (lowestOutboundFare ?s) (Fin 0)
              @ [Log [FareLine Outbound (shown (lowestOutboundFare ?s))
                        (outboundFareDiffString cfg ?s)],
                 Plot (lowestOutboundFare ?s) None,
                 Render, SetTimeout (interval cfg * TIME_MIN)]
            \<and> prevLowestReturnFare (fst (fetch fadd cfg r st)) = Some (Fin 0)
          else \<not> fares_logged ?evs
            \<and> prevLowestReturnFare (fst (fetch fadd cfg r st)) = prevLowestReturnFare st)
       \<and> alert_fired ?evs
         = (cycle_valid cfg r st
            \<and> awesomeDealIsAwesome fadd cfg (lowestOutboundFare ?s) (Fin 0))
       \<and> return_shown ?evs = alert_fired ?evs"
  proof cases
    case failed
    from fetch_failed [OF failed] obtain e
      where f: "fetch fadd cfg r st = (pushed cfg r st, [Log [ErrorLine e]])" ..
    from failed have nv: "\<not> cycle_valid cfg r st" by (simp add: cycle_valid_def)
    show ?thesis
      using nv pr
      by (simp add: f return_line_logged_def return_plotted_def fares_logged_def
          alert_fired_def return_shown_def)
  next
    case invalid
    then have nv: "\<not> cycle_valid cfg r st" by (simp add: cycle_valid_def cycle_invalid_def)
    show ?thesis
      using nv pr
      by (simp add: fetch_invalid [OF invalid] return_line_logged_def return_plotted_def
          fares_logged_def alert_fired_def return_shown_def)
  next
    case valid
    have f: "fetch fadd cfg r st =
       (\<lparr>prevLowestOutboundFare = Some (lowestOutboundFare ?s),
         prevLowestReturnFare = Some (Fin 0),
         fares_outbound = [], fares_return = []\<rparr>,
        deal_events fadd cfg (lowestOutboundFare ?s) (Fin 0)
          @ [Log [FareLine Outbound (shown (lowestOutboundFare ?s))
                    (outboundFareDiffString cfg ?s)],
             Plot (lowestOutboundFare ?s) None,
             Render, SetTimeout (interval cfg * TIME_MIN)])"
      by (simp add: fetch_valid [OF valid] c fare_events_one_way [OF assms])
    show ?thesis
      using valid
      by (simp add: f return_line_logged_def return_plotted_def alert_fired_def
          return_shown_def deal_events_return)
        (simp add: deal_events_def)
  qed
  have aw: "awesomeDealIsAwesome fadd cfg (lowestOutboundFare ?s) (Fin 0)
     = (truthy_opt (totalDealPrice cfg)
          \<and> js_le (js_add fadd (lowestOutboundFare ?s) (Fin 0)) (to_number (totalDealPrice cfg))
        \<or> truthy_opt (individualDealPrice cfg)
          \<and> (js_le (lowestOutboundFare ?s) (to_number (individualDealPrice cfg))
             \<or> js_le (Fin 0) (to_number (individualDealPrice cfg))))"
    by (simp add: awesomeDealIsAwesome_def)
  from a b c d i rest show ?thesis
    unfolding aw by blast
qed

theorem one_way_return_is_zero_witness:
  "fetch exact (one_way_config None (Some (Fin 60))) (round_trip (Fin 50) (Fin 40)) init_state
     = (seen (Fin 50) (Fin 0),
        [Log [DealLine (Fin 50) (Fin 50) (Fin 0)],
         Log [FareLine Outbound (Some (Fin 50)) None],
         Plot (Fin 50) None, Render, SetTimeout 1800000])
   \<and> fetch exact (one_way_config None (Some (Fin 60))) (round_trip (Fin 50) (Fin 40)) init_state
     = fetch exact (one_way_config None (Some (Fin 60))) (one_way (Fin 50)) init_state
   \<and> \<not> return_line_logged (snd (fetch exact (one_way_config None (Some (Fin 60)))
        (round_trip (Fin 50) (Fin 40)) init_state))
   \<and> \<not> return_plotted (snd (fetch exact (one_way_config None (Some (Fin 60)))
        (round_trip (Fin 50) (Fin 40)) init_state))
   \<and> \<not> alert_fired (snd (fetch exact (one_way_config None (Some (Fin 40)))
        (round_trip (Fin 50) (Fin 40)) init_state))
   \<and> \<not> return_shown (snd (fetch exact (one_way_config None (Some (Fin 40)))
        (round_trip (Fin 50) (Fin 40)) init_state))"
proof -
  have h: "oneWay (one_way_config None (Some (Fin 60)))"
    by (simp add: one_way_config_def)
  have k: "oneWay (one_way_config None (Some (Fin 40)))"
    by (simp add: one_way_config_def)
  show ?thesis
    using one_way_return_is_zero [OF h, where fadd = exact and st = init_state
        and ts = "[quote (Fin 50), quote (Fin 40)]" and r = "round_trip (Fin 50) (Fin 40)"]
      one_way_return_is_zero [OF k, where fadd = exact and st = init_state
        and ts = "[quote (Fin 50), quote (Fin 40)]" and r = "round_trip (Fin 50) (Fin 40)"]
    by (simp add: example_defs cycle_defs observation_defs Let_def)
qed

text \<open>
  C9. On a one way trip the lowest return fare is 0, so with a positive individual
  deal price the individual condition holds and the alert fires in every valid cycle,
  whatever the outbound fare.
\<close>

theorem one_way_individual_deal_always_fires:
  assumes "oneWay cfg"
    and "individualDealPrice cfg = Some p"
    and "js_gt p (Fin 0)"
    and "cycle_valid cfg r st"
  shows "lowestReturnFare cfg (pushed cfg r st) = Fin 0
       \<and> js_le (lowestReturnFare cfg (pushed cfg r st)) (to_number (individualDealPrice cfg))
       \<and> alert_fired (snd (fetch fadd cfg r st))"
proof -
  have z: "lowestReturnFare cfg (pushed cfg r st) = Fin 0"
    using assms(1) by (simp add: lowestReturnFare_def)
  have t: "truthy p" and le: "js_le (Fin 0) p"
    using assms(3) by (cases p; simp add: js_gt_def)+
  have "awesomeDealIsAwesome fadd cfg (lowestOutboundFare (pushed cfg r st)) (Fin 0)"
    using t le by (simp add: awesomeDealIsAwesome_def assms(2))
  then have "alert_fired (snd (fetch fadd cfg r st))"
    by (simp only: fetch_valid [OF assms(4)] snd_conv alert_fired_deal_events z)
  with z le show ?thesis by (simp add: assms(2))
qed

theorem one_way_individual_deal_always_fires_witness:
  "cycle_valid (one_way_config (Some (Fin 1)) None) (one_way (Fin 300)) init_state
   \<and> alert_fired (snd (fetch exact (one_way_config (Some (Fin 1)) None) (one_way (Fin 300)) init_state))
   \<and> snd (fetch exact (one_way_config (Some (Fin 1)) None) (one_way (Fin 300)) init_state)
     = [Log [DealLine (Fin 300) (Fin 300) (Fin 0)],
        Log [FareLine Outbound (Some (Fin 300)) None],
        Plot (Fin 300) None, Render, SetTimeout 1800000]"
proof -
  let ?c = "one_way_config (Some (Fin 1)) None"
  have a: "oneWay ?c" and b: "individualDealPrice ?c = Some (Fin 1)"
    by (simp_all add: one_way_config_def)
  have c: "js_gt (Fin 1) (Fin 0)"
    by (simp add: js_gt_def)
  have d: "cycle_valid ?c (one_way (Fin 300)) init_state"
    by (simp add: example_defs cycle_defs observation_defs Let_def)
  have e: "snd (fetch exact ?c (one_way (Fin 300)) init_state)
     = [Log [DealLine (Fin 300) (Fin 300) (Fin 0)],
        Log [FareLine Outbound (Some (Fin 300)) None],
        Plot (Fin 300) None, Render, SetTimeout 1800000]"
    by (simp add: example_defs cycle_defs Let_def)
  from one_way_individual_deal_always_fires [OF a b c d] d e show ?thesis by blast
qed

text \<open>
  C10. A deal price of 0 is falsy: the cycle behaves as with the price not given, and
  a cycle whose deal prices are 0 or not given never fires the alert, also with fares
  of 0.
\<close>

theorem zero_deal_price_is_unconfigured:
  "fetch fadd (cfg\<lparr>totalDealPrice := Some (Fin 0)\<rparr>) r st
     = fetch fadd (cfg\<lparr>totalDealPrice := None\<rparr>) r st
   \<and> fetch fadd (cfg\<lparr>individualDealPrice := Some (Fin 0)\<rparr>) r st
     = fetch fadd (cfg\<lparr>individualDealPrice := None\<rparr>) r st
   \<and> \<not> alert_fired (snd (fetch fadd
         (cfg\<lparr>totalDealPrice := Some (Fin 0), individualDealPrice := Some (Fin 0)\<rparr>) r st))
   \<and> \<not> alert_fired (snd (fetch fadd
         (cfg\<lparr>totalDealPrice := Some (Fin 0), individualDealPrice := None\<rparr>) r st))
   \<and> \<not> alert_fired (snd (fetch fadd
         (cfg\<lparr>totalDealPrice := None, individualDealPrice := Some (Fin 0)\<rparr>) r st))"
proof -
  have a: "fetch fadd (cfg\<lparr>totalDealPrice := Some (Fin 0)\<rparr>) r st
     = fetch fadd (cfg\<lparr>totalDealPrice := None\<rparr>) r st"
    by (rule fetch_cong_config) (simp_all add: awesome_zero_total)
  have b: "fetch fadd (cfg\<lparr>individualDealPrice := Some (Fin 0)\<rparr>) r st
     = fetch fadd (cfg\<lparr>individualDealPrice := None\<rparr>) r st"
    by (rule fetch_cong_config) (simp_all add: awesome_zero_individual)
  have n: "\<not> alert_fired (snd (fetch fadd c r st))"
    if "\<not> truthy_opt (totalDealPrice c)" "\<not> truthy_opt (individualDealPrice c)" for c
  proof -
    consider (failed) "cycle_failed c r st" | (invalid) "cycle_invalid c r st"
      | (valid) "cycle_valid c r st"
      using cycle_cases [of c r st] by blast
    then show ?thesis
    proof cases
      case failed
      from fetch_failed [OF failed] obtain e
        where f: "fetch fadd c r st = (pushed c r st, [Log [ErrorLine e]])" ..
      show ?thesis by (simp add: f alert_fired_def)
    next
      case invalid
      show ?thesis by (simp add: fetch_invalid [OF invalid] alert_fired_def)
    next
      case valid
      have "\<not> awesomeDealIsAwesome fadd c (lowestOutboundFare (pushed c r st))
          (lowestReturnFare c (pushed c r st))"
        using that by (simp add: awesomeDealIsAwesome_def)
      then show ?thesis
        by (simp add: fetch_valid [OF valid] alert_fired_deal_events)
    qed
  qed
  have c: "\<not> alert_fired (snd (fetch fadd
         (cfg\<lparr>totalDealPrice := Some (Fin 0), individualDealPrice := Some (Fin 0)\<rparr>) r st))"
    by (rule n) simp_all
  have d: "\<not> alert_fired (snd (fetch fadd
         (cfg\<lparr>totalDealPrice := Some (Fin 0), individualDealPrice := None\<rparr>) r st))"
    by (rule n) simp_all
  have e: "\<not> alert_fired (snd (fetch fadd
         (cfg\<lparr>totalDealPrice := None, individualDealPrice := Some (Fin 0)\<rparr>) r st))"
    by (rule n) simp_all
  from a b c d e show ?thesis by blast
qed

theorem zero_deal_price_is_unconfigured_witness:
  "fetch exact (round_trip_config None (Some (Fin 0))) (round_trip (Fin 0) (Fin 0)) init_state
     = fetch exact (round_trip_config None None) (round_trip (Fin 0) (Fin 0)) init_state
   \<and> \<not> alert_fired (snd (fetch exact (round_trip_config (Some (Fin 0)) (Some (Fin 0)))
        (round_trip (Fin 0) (Fin 0)) init_state))
   \<and> alert_fired (snd (fetch exact (round_trip_config (Some (Fin 1)) (Some (Fin 0)))
        (round_trip (Fin 0) (Fin 0)) init_state))"
  using zero_deal_price_is_unconfigured [where fadd = exact
      and cfg = "round_trip_config None None"
      and r = "round_trip (Fin 0) (Fin 0)" and st = init_state]
  by (simp add: example_defs cycle_defs alert_fired_def Let_def)

end
